theory Spec2Isabelle
  imports Main "HOL-Library.Word" "HOL-Library.Sublist"
begin

unbundle bit_operations_syntax

section \<open>Machine words, byte order and the build configuration\<close>

text \<open>
  \<^verbatim>\<open>buse.c\<close> is the userspace side of a Linux network block device: the kernel sends
  requests over a socket pair and \<^verbatim>\<open>serve_nbd\<close> answers them with the callbacks of a
  \<^verbatim>\<open>struct buse_operations\<close>.  Bytes on the channel are \<open>8 word\<close>, the 32-bit fields
  \<open>32 word\<close>, the 64-bit offset \<open>64 word\<close>.

  Two things the C text leaves to the build are parameters of the model:
  the byte order of the host (which decides what \<^verbatim>\<open>ntohl\<close>/\<^verbatim>\<open>htonl\<close> of the C library do and
  how a struct field lies in memory), and the preprocessor symbols the file tests
  (\<^verbatim>\<open>WORDS_BIGENDIAN\<close>, \<^verbatim>\<open>NBD_FLAG_SEND_FLUSH\<close>, \<^verbatim>\<open>NBD_FLAG_SEND_TRIM\<close>, \<^verbatim>\<open>NBD_SET_FLAGS\<close>).
\<close>

type_synonym byte = "8 word"

type_synonym u32 = "32 word"

type_synonym u64 = "64 word"

datatype byte_order = LittleEndian | BigEndian

record config =
  host_order :: byte_order
  words_bigendian :: bool
  have_send_flush :: bool
  have_send_trim :: bool
  have_set_flags :: bool

text \<open>The C library's byte swap, as \<^verbatim>\<open>bits/byteswap.h\<close> writes it.\<close>

definition bswap_32 :: "u32 \<Rightarrow> u32" where
  "bswap_32 x = drop_bit 24 (x AND 0xff000000) OR drop_bit 8 (x AND 0x00ff0000)
              OR push_bit 8 (x AND 0x0000ff00) OR push_bit 24 (x AND 0x000000ff)"

definition ntohl :: "byte_order \<Rightarrow> u32 \<Rightarrow> u32" where
  "ntohl ho x = (case ho of BigEndian \<Rightarrow> x | LittleEndian \<Rightarrow> bswap_32 x)"

definition htonl :: "byte_order \<Rightarrow> u32 \<Rightarrow> u32" where
  "htonl ho x = (case ho of BigEndian \<Rightarrow> x | LittleEndian \<Rightarrow> bswap_32 x)"

text \<open>
  \<^verbatim>\<open>ntohll\<close> (lines 42--54): the identity under \<^verbatim>\<open>WORDS_BIGENDIAN\<close>, otherwise both 32-bit
  halves go through \<^verbatim>\<open>ntohl\<close> and change places.  Line 55 defines \<^verbatim>\<open>htonll\<close> as \<^verbatim>\<open>ntohll\<close>.
\<close>

definition ntohll :: "config \<Rightarrow> u64 \<Rightarrow> u64" where
  "ntohll cfg a =
     (if words_bigendian cfg then a
      else let lo = (ucast (a AND 0xffffffff) :: u32);
               hi = (ucast (drop_bit 32 a) :: u32);
               lo = ntohl (host_order cfg) lo;
               hi = ntohl (host_order cfg) hi
           in push_bit 32 (ucast lo :: u64) OR ucast hi)"

definition htonll :: "config \<Rightarrow> u64 \<Rightarrow> u64" where
  "htonll = ntohll"

subsection \<open>Integers in memory\<close>

text \<open>
  A struct read from or written to the socket is its bytes in memory, so an integer field
  is seen on the wire in the byte order of the host.
\<close>

fun le_bytes :: "nat \<Rightarrow> 'a::len word \<Rightarrow> byte list" where
  "le_bytes 0 x = []"
| "le_bytes (Suc n) x = ucast x # le_bytes n (drop_bit 8 x)"

fun le_word :: "byte list \<Rightarrow> 'a::len word" where
  "le_word [] = 0"
| "le_word (b # bs) = ucast b OR push_bit 8 (le_word bs)"

definition store32 :: "byte_order \<Rightarrow> u32 \<Rightarrow> byte list" where
  "store32 ho x = (case ho of LittleEndian \<Rightarrow> le_bytes 4 x | BigEndian \<Rightarrow> rev (le_bytes 4 x))"

definition load32 :: "byte_order \<Rightarrow> byte list \<Rightarrow> u32" where
  "load32 ho bs = (case ho of LittleEndian \<Rightarrow> le_word bs | BigEndian \<Rightarrow> le_word (rev bs))"

definition load64 :: "byte_order \<Rightarrow> byte list \<Rightarrow> u64" where
  "load64 ho bs = (case ho of LittleEndian \<Rightarrow> le_word bs | BigEndian \<Rightarrow> le_word (rev bs))"

text \<open>The big-endian (network order) encoding of a 32-bit value.\<close>

definition be32_bytes :: "u32 \<Rightarrow> byte list" where
  "be32_bytes x = rev (le_bytes 4 x)"

section \<open>The wire structures and constants of the kernel interface\<close>

text \<open>
  \<^verbatim>\<open>struct nbd_request\<close> (packed: magic, type, handle[8], from, len; 28 bytes) and
  \<^verbatim>\<open>struct nbd_reply\<close> (magic, error, handle[8]; 16 bytes), the magic numbers and the command
  codes come from the kernel header \<^verbatim>\<open>linux/nbd.h\<close>, \<^verbatim>\<open>EPERM\<close> from \<^verbatim>\<open>errno.h\<close>.
\<close>

definition NBD_REQUEST_MAGIC :: u32 where "NBD_REQUEST_MAGIC = 0x25609513"

definition NBD_REPLY_MAGIC :: u32 where "NBD_REPLY_MAGIC = 0x67446698"

definition NBD_CMD_READ :: u32 where "NBD_CMD_READ = 0"

definition NBD_CMD_WRITE :: u32 where "NBD_CMD_WRITE = 1"

definition NBD_CMD_DISC :: u32 where "NBD_CMD_DISC = 2"

definition NBD_CMD_FLUSH :: u32 where "NBD_CMD_FLUSH = 3"

definition NBD_CMD_TRIM :: u32 where "NBD_CMD_TRIM = 4"

definition EPERM :: u32 where "EPERM = 1"

definition EXIT_SUCCESS :: int where "EXIT_SUCCESS = 0"

definition EXIT_FAILURE :: int where "EXIT_FAILURE = 1"

definition sizeof_nbd_request :: nat where "sizeof_nbd_request = 28"


record nbd_request =
  req_magic :: u32
  req_type :: u32
  req_handle :: "byte list"
  req_from :: u64
  req_len :: u32

record nbd_reply =
  rep_magic :: u32
  rep_error :: u32
  rep_handle :: "byte list"

text \<open>The struct that \<^verbatim>\<open>read(sk, &request, sizeof(request))\<close> leaves in memory after 28 bytes.\<close>

definition request_of_bytes :: "byte_order \<Rightarrow> byte list \<Rightarrow> nbd_request" where
  "request_of_bytes ho bs =
     \<lparr> req_magic = load32 ho (take 4 bs),
       req_type = load32 ho (take 4 (drop 4 bs)),
       req_handle = take 8 (drop 8 bs),
       req_from = load64 ho (take 8 (drop 16 bs)),
       req_len = load32 ho (take 4 (drop 24 bs)) \<rparr>"

text \<open>The bytes that \<^verbatim>\<open>write_all(sk, (char*)&reply, sizeof(struct nbd_reply))\<close> sends.\<close>

definition reply_bytes :: "byte_order \<Rightarrow> nbd_reply \<Rightarrow> byte list" where
  "reply_bytes ho r = store32 ho (rep_magic r) @ store32 ho (rep_error r) @ rep_handle r"

section \<open>The process and its environment\<close>

text \<open>
  The incoming side of the socket is the list of what the coming \<^verbatim>\<open>read\<close> calls find:
  a segment of bytes that has arrived (an empty one is an end-of-stream indication), or a
  failing call.  When the list is used up the peer has closed the channel.  The outgoing
  side is the list of how many bytes each coming \<^verbatim>\<open>write\<close> call accepts at most (0: the call
  fails); when it is used up every call accepts all it is given.
\<close>

datatype arrival = Bytes "byte list" | Failure

datatype invocation =
    CallRead u32 u64
  | CallWrite "byte list" u32 u64
  | CallDisc
  | CallFlush
  | CallTrim u64 u32

text \<open>What an observer of the process sees, in order.\<close>

datatype event = Recv byte | Sent byte | Call invocation

datatype ioctl_request =
    NBD_SET_BLKSIZE | NBD_SET_SIZE | NBD_SET_SIZE_BLOCKS | NBD_CLEAR_SOCK | NBD_SET_SOCK
  | NBD_SET_FLAGS | NBD_DO_IT | NBD_CLEAR_QUE | NBD_DISCONNECT

text \<open>The diagnostics the file prints on standard error, one constructor for each.\<close>

datatype diag =
    MsgReadRequest u32
  | MsgWriteRequest u32
  | MsgStrerror
  | WarnDisconnectFailed
  | MsgDisconnectRequested
  | WarnOverridenHandler
  | MsgOpenFailed
  | WarnBlockSignals
  | MsgSetSockFailed
  | MsgSetFlagsFailed
  | MsgDeviceTerminated int
  | MsgCleanupFailed
  | WarnSignalMask
  | WarnSignalHandlers

text \<open>
  The state of the process and of its surroundings: what is still to arrive on the socket
  (\<open>rx\<close>), what the coming \<^verbatim>\<open>write\<close> calls accept (\<open>wr_limits\<close>), the content that fresh
  heap memory has (\<open>heap_junk\<close>), what has been observed so far (\<open>trace\<close>), the data behind
  the \<^verbatim>\<open>userdata\<close> pointer (\<open>user\<close>), the global of line 88, the device-control requests made
  and the diagnostics printed.
\<close>

record 'u state =
  rx :: "arrival list"
  wr_limits :: "nat list"
  heap_junk :: "nat \<Rightarrow> byte"
  trace :: "event list"
  user :: 'u
  nbd_dev_to_disconnect :: int
  ioctls :: "(int \<times> ioctl_request) list"
  stderr :: "diag list"

text \<open>
  Modelled from the spec: \<^verbatim>\<open>struct buse_operations\<close> is declared in \<^verbatim>\<open>buse.h\<close>, which is not
  among the sources.  The spec gives the optional slots \<open>read(buffer, length, offset, userdata)\<close>,
  \<open>write(buffer, length, offset, userdata)\<close>, \<open>flush(userdata)\<close>,
  \<open>trim(offset, length, userdata)\<close>, each returning a status, \<open>disconnect(userdata)\<close> returning
  nothing, and the geometry fields.  A callback is a function of the user data \<open>'u\<close>; one that
  returns a status returns the 32 bits that the code stores in \<^verbatim>\<open>reply.error\<close>; \<open>read\<close> also
  returns what it wrote into the buffer.
\<close>

record 'u buse_operations =
  op_read :: "(byte list \<Rightarrow> u32 \<Rightarrow> u64 \<Rightarrow> 'u \<Rightarrow> u32 \<times> byte list \<times> 'u) option"
  op_write :: "(byte list \<Rightarrow> u32 \<Rightarrow> u64 \<Rightarrow> 'u \<Rightarrow> u32 \<times> 'u) option"
  op_disc :: "('u \<Rightarrow> 'u) option"
  op_flush :: "('u \<Rightarrow> u32 \<times> 'u) option"
  op_trim :: "(u64 \<Rightarrow> u32 \<Rightarrow> 'u \<Rightarrow> u32 \<times> 'u) option"
  op_size :: u64
  op_blksize :: u32
  op_size_blocks :: u64

text \<open>
  The file does not define \<^verbatim>\<open>NDEBUG\<close>, so its assertions are compiled in: a failed one
  ends the process (\<open>Aborted\<close>).  A function of the model that contains an assertion
  returns whether it got past it, and the state reached.
\<close>

datatype status = Completed | AssertFailed

datatype outcome = Returned int | Aborted | Exited int

datatype flow = Continue | Stop outcome

subsection \<open>The system calls on the channel\<close>

text \<open>Linux transfers at most \<^verbatim>\<open>MAX_RW_COUNT\<close> bytes in one call, so the result fits an \<^verbatim>\<open>int\<close>.\<close>

definition MAX_RW_COUNT :: nat where "MAX_RW_COUNT = 0x7ffff000"

definition sys_read :: "arrival list \<Rightarrow> nat \<Rightarrow> int \<times> byte list \<times> arrival list" where
  "sys_read ar count =
     (case ar of
        [] \<Rightarrow> (0, [], [])
      | Failure # rest \<Rightarrow> (- 1, [], rest)
      | Bytes seg # rest \<Rightarrow>
          (let k = min count (min (length seg) MAX_RW_COUNT)
           in (int k, take k seg, if k < length seg then Bytes (drop k seg) # rest else rest)))"

definition sys_write :: "nat list \<Rightarrow> byte list \<Rightarrow> int \<times> nat list" where
  "sys_write lims buf =
     (case lims of
        [] \<Rightarrow> (int (min (length buf) MAX_RW_COUNT), [])
      | m # rest \<Rightarrow>
          if m = 0 then (- 1, rest)
          else (int (min (length buf) (min m MAX_RW_COUNT)), rest))"

text \<open>The bytes still to come on the channel, and how many they are.\<close>

fun stream :: "arrival list \<Rightarrow> byte list" where
  "stream [] = []"
| "stream (Bytes seg # rest) = seg @ stream rest"
| "stream (Failure # rest) = stream rest"

fun rx_bytes :: "arrival list \<Rightarrow> nat" where
  "rx_bytes [] = 0"
| "rx_bytes (Bytes seg # rest) = length seg + rx_bytes rest"
| "rx_bytes (Failure # rest) = rx_bytes rest"

subsection \<open>read_all and write_all\<close>

text \<open>
  \<^verbatim>\<open>read_all\<close> (lines 57--70) calls \<^verbatim>\<open>read\<close> until \<open>count\<close> bytes have come and asserts that
  every call returns more than 0.  The model also returns the bytes placed in the buffer.
\<close>

function read_all :: "'u state \<Rightarrow> nat \<Rightarrow> status \<times> byte list \<times> 'u state" where
  "read_all s count =
     (if count > 0 then
        (case sys_read (rx s) count of
           (bytes_read, got, ar) \<Rightarrow>
             if bytes_read > 0 then
               (case read_all (s\<lparr>rx := ar, trace := trace s @ map Recv got\<rparr>) (count - nat bytes_read) of
                  (st, further, s') \<Rightarrow> (st, got @ further, s'))
             else (AssertFailed, [], s\<lparr>rx := ar\<rparr>))
      else (Completed, [], s))"
  by pat_completeness auto
termination
  by (relation "measure (\<lambda>(s, count). count)") auto

declare read_all.simps [simp del]

text \<open>
  \<^verbatim>\<open>write_all\<close> (lines 72--85); \<open>buf\<close> is the \<open>count\<close> bytes from the pointer on.
\<close>

function write_all :: "'u state \<Rightarrow> byte list \<Rightarrow> status \<times> 'u state" where
  "write_all s buf =
     (if length buf > 0 then
        (case sys_write (wr_limits s) buf of
           (bytes_written, lims) \<Rightarrow>
             if bytes_written > 0 then
               write_all (s\<lparr>wr_limits := lims, trace := trace s @ map Sent (take (nat bytes_written) buf)\<rparr>)
                 (drop (nat bytes_written) buf)
             else (AssertFailed, s\<lparr>wr_limits := lims\<rparr>))
      else (Completed, s))"
  by pat_completeness auto
termination
  by (relation "measure (\<lambda>(s, buf). length buf)") auto

declare write_all.simps [simp del]

subsection \<open>The dispatch loop\<close>

text \<open>
  \<^verbatim>\<open>malloc(len)\<close> gives \<open>len\<close> bytes whose content is whatever the heap holds; the allocation
  is taken to succeed.  A read callback overwrites the buffer from its start.
\<close>

definition malloc :: "'u state \<Rightarrow> nat \<Rightarrow> byte list" where
  "malloc s n = map (heap_junk s) [0..<n]"

definition overlay :: "byte list \<Rightarrow> byte list \<Rightarrow> byte list" where
  "overlay chunk written = take (length chunk) (written @ drop (length written) chunk)"

text \<open>\<^verbatim>\<open>case NBD_CMD_READ\<close>, lines 138--152.\<close>

definition cmd_read ::
  "config \<Rightarrow> 'u buse_operations \<Rightarrow> 'u state \<Rightarrow> nbd_reply \<Rightarrow> u32 \<Rightarrow> u64 \<Rightarrow> flow \<times> 'u state" where
  "cmd_read cfg aop s0 reply len from =
     (let s = s0\<lparr>stderr := stderr s0 @ [MsgReadRequest len]\<rparr>;
          chunk = malloc s (unat len);
          (err, chunk, s) =
             (case op_read aop of
                Some f \<Rightarrow>
                  (case f chunk len from (user s) of
                     (r, written, u) \<Rightarrow>
                       (r, overlay chunk written,
                        s\<lparr>trace := trace s @ [Call (CallRead len from)], user := u\<rparr>))
              | None \<Rightarrow> (htonl (host_order cfg) EPERM, chunk, s));
          reply = reply\<lparr>rep_error := err\<rparr>
      in case write_all s (reply_bytes (host_order cfg) reply) of
           (AssertFailed, s) \<Rightarrow> (Stop Aborted, s)
         | (Completed, s) \<Rightarrow>
             (case write_all s chunk of
                (AssertFailed, s) \<Rightarrow> (Stop Aborted, s)
              | (Completed, s) \<Rightarrow> (Continue, s)))"

text \<open>\<^verbatim>\<open>case NBD_CMD_WRITE\<close>, lines 153--165.\<close>

definition cmd_write ::
  "config \<Rightarrow> 'u buse_operations \<Rightarrow> 'u state \<Rightarrow> nbd_reply \<Rightarrow> u32 \<Rightarrow> u64 \<Rightarrow> flow \<times> 'u state" where
  "cmd_write cfg aop s0 reply len from =
     (let s = s0\<lparr>stderr := stderr s0 @ [MsgWriteRequest len]\<rparr>
      in case read_all s (unat len) of
           (AssertFailed, chunk, s) \<Rightarrow> (Stop Aborted, s)
         | (Completed, chunk, s) \<Rightarrow>
             (let (err, s) =
                    (case op_write aop of
                       Some f \<Rightarrow>
                         (case f chunk len from (user s) of
                            (r, u) \<Rightarrow>
                              (r, s\<lparr>trace := trace s @ [Call (CallWrite chunk len from)], user := u\<rparr>))
                     | None \<Rightarrow> (htonl (host_order cfg) EPERM, s));
                  reply = reply\<lparr>rep_error := err\<rparr>
              in case write_all s (reply_bytes (host_order cfg) reply) of
                   (AssertFailed, s) \<Rightarrow> (Stop Aborted, s)
                 | (Completed, s) \<Rightarrow> (Continue, s)))"

text \<open>\<^verbatim>\<open>case NBD_CMD_DISC\<close>, lines 166--171.\<close>

definition cmd_disc :: "'u buse_operations \<Rightarrow> 'u state \<Rightarrow> flow \<times> 'u state" where
  "cmd_disc aop s =
     (case op_disc aop of
        Some f \<Rightarrow> (Stop (Returned EXIT_SUCCESS), s\<lparr>trace := trace s @ [Call CallDisc], user := f (user s)\<rparr>)
      | None \<Rightarrow> (Stop (Returned EXIT_SUCCESS), s))"

text \<open>\<^verbatim>\<open>case NBD_CMD_FLUSH\<close>, lines 173--178.\<close>

definition cmd_flush ::
  "config \<Rightarrow> 'u buse_operations \<Rightarrow> 'u state \<Rightarrow> nbd_reply \<Rightarrow> flow \<times> 'u state" where
  "cmd_flush cfg aop s reply =
     (let (reply, s) =
            (case op_flush aop of
               Some f \<Rightarrow>
                 (case f (user s) of
                    (r, u) \<Rightarrow> (reply\<lparr>rep_error := r\<rparr>, s\<lparr>trace := trace s @ [Call CallFlush], user := u\<rparr>))
             | None \<Rightarrow> (reply, s))
      in case write_all s (reply_bytes (host_order cfg) reply) of
           (AssertFailed, s) \<Rightarrow> (Stop Aborted, s)
         | (Completed, s) \<Rightarrow> (Continue, s))"

text \<open>\<^verbatim>\<open>case NBD_CMD_TRIM\<close>, lines 181--186.\<close>

definition cmd_trim ::
  "config \<Rightarrow> 'u buse_operations \<Rightarrow> 'u state \<Rightarrow> nbd_reply \<Rightarrow> u32 \<Rightarrow> u64 \<Rightarrow> flow \<times> 'u state" where
  "cmd_trim cfg aop s reply len from =
     (let (reply, s) =
            (case op_trim aop of
               Some f \<Rightarrow>
                 (case f from len (user s) of
                    (r, u) \<Rightarrow>
                      (reply\<lparr>rep_error := r\<rparr>, s\<lparr>trace := trace s @ [Call (CallTrim from len)], user := u\<rparr>))
             | None \<Rightarrow> (reply, s))
      in case write_all s (reply_bytes (host_order cfg) reply) of
           (AssertFailed, s) \<Rightarrow> (Stop Aborted, s)
         | (Completed, s) \<Rightarrow> (Continue, s))"

text \<open>
  The body of the loop once a whole header is in \<^verbatim>\<open>request\<close> (lines 125--190).  At this
  point \<^verbatim>\<open>reply.magic\<close> is as line 120 set it, no later line changes it, and lines 125--126
  have set the handle and the error field anew.
\<close>

definition serve_request ::
  "config \<Rightarrow> 'u buse_operations \<Rightarrow> 'u state \<Rightarrow> byte list \<Rightarrow> flow \<times> 'u state" where
  "serve_request cfg aop s hdr =
     (let ho = host_order cfg;
          request = request_of_bytes ho hdr;
          reply = \<lparr> rep_magic = htonl ho NBD_REPLY_MAGIC, rep_error = htonl ho 0,
                    rep_handle = req_handle request \<rparr>;
          len = ntohl ho (req_len request);
          from = ntohll cfg (req_from request)
      in if req_magic request \<noteq> htonl ho NBD_REQUEST_MAGIC then (Stop Aborted, s)
         else let ty = ntohl ho (req_type request)
              in if ty = NBD_CMD_READ then cmd_read cfg aop s reply len from
                 else if ty = NBD_CMD_WRITE then cmd_write cfg aop s reply len from
                 else if ty = NBD_CMD_DISC then cmd_disc aop s
                 else if have_send_flush cfg \<and> ty = NBD_CMD_FLUSH then cmd_flush cfg aop s reply
                 else if have_send_trim cfg \<and> ty = NBD_CMD_TRIM then cmd_trim cfg aop s reply len from
                 else (Stop Aborted, s))"

text \<open>
  One turn of the \<^verbatim>\<open>while\<close> of line 123: the read of the header, the assertion of line 124
  and the body; when the read returns 0 or \<open>-1\<close> the loop ends and lines 192--196 decide
  what \<^verbatim>\<open>serve_nbd\<close> returns.
\<close>

definition serve_iter :: "config \<Rightarrow> 'u buse_operations \<Rightarrow> 'u state \<Rightarrow> flow \<times> 'u state" where
  "serve_iter cfg aop s =
     (case sys_read (rx s) sizeof_nbd_request of
        (bytes_read, got, ar) \<Rightarrow>
          if bytes_read > 0 then
            (let s = s\<lparr>rx := ar, trace := trace s @ map Recv got\<rparr>
             in if bytes_read \<noteq> int sizeof_nbd_request then (Stop Aborted, s)
                else serve_request cfg aop s got)
          else if bytes_read = - 1
            then (Stop (Returned EXIT_FAILURE), s\<lparr>rx := ar, stderr := stderr s @ [MsgStrerror]\<rparr>)
            else (Stop (Returned EXIT_SUCCESS), s\<lparr>rx := ar\<rparr>))"

lemma sys_read_stream:
  "sys_read ar count = (n, got, ar') \<Longrightarrow> stream ar = got @ stream ar'"
  by (auto simp add: sys_read_def Let_def split: list.splits arrival.splits if_splits)

lemma sys_read_rx_bytes:
  "sys_read ar count = (n, got, ar') \<Longrightarrow> rx_bytes ar = length got + rx_bytes ar'"
  by (auto simp add: sys_read_def Let_def split: list.splits arrival.splits if_splits)

lemma sys_read_pos:
  "sys_read ar count = (n, got, ar') \<Longrightarrow> 0 < n \<Longrightarrow> n = int (length got) \<and> length got \<le> count"
  by (auto simp add: sys_read_def Let_def split: list.splits arrival.splits if_splits)

lemma sys_read_nonpos:
  "sys_read ar count = (n, got, ar') \<Longrightarrow> \<not> 0 < n \<Longrightarrow> got = [] \<and> (n = 0 \<or> n = - 1)"
  by (auto simp add: sys_read_def Let_def split: list.splits arrival.splits if_splits)

lemma read_all_spec:
  "read_all s count = (st, got, s') \<Longrightarrow>
     trace s' = trace s @ map Recv got \<and>
     stream (rx s) = got @ stream (rx s') \<and>
     rx_bytes (rx s) = length got + rx_bytes (rx s') \<and>
     (st = Completed \<longrightarrow> length got = count) \<and>
     (st = AssertFailed \<longrightarrow> length got < count) \<and>
     s' = s\<lparr>rx := rx s', trace := trace s'\<rparr>"
proof (induction s count arbitrary: st got s' rule: read_all.induct)
  case (1 s count)
  show ?case
  proof (cases "count > 0")
    case False
    with "1.prems" show ?thesis by (simp add: read_all.simps)
  next
    case True
    obtain n g ar where sr: "sys_read (rx s) count = (n, g, ar)"
      by (cases "sys_read (rx s) count") auto
    show ?thesis
    proof (cases "0 < n")
      case False
      with True sr "1.prems" sys_read_nonpos [OF sr] sys_read_stream [OF sr] sys_read_rx_bytes [OF sr]
      show ?thesis by (auto simp add: read_all.simps [of s count])
    next
      case pos: True
      let ?s1 = "s\<lparr>rx := ar, trace := trace s @ map Recv g\<rparr>"
      obtain st1 g1 s1 where ra: "read_all ?s1 (count - nat n) = (st1, g1, s1)"
        by (cases "read_all ?s1 (count - nat n)") auto
      from "1.IH" [OF True sr [symmetric] refl pos ra]
      have ih: "trace s1 = trace ?s1 @ map Recv g1"
        "stream (rx ?s1) = g1 @ stream (rx s1)"
        "rx_bytes (rx ?s1) = length g1 + rx_bytes (rx s1)"
        "st1 = Completed \<longrightarrow> length g1 = count - nat n"
        "st1 = AssertFailed \<longrightarrow> length g1 < count - nat n"
        "s1 = ?s1\<lparr>rx := rx s1, trace := trace s1\<rparr>"
        by blast+
      from True sr pos ra "1.prems"
      have res: "st = st1" "got = g @ g1" "s' = s1"
        by (simp_all add: read_all.simps [of s count])
      from sys_read_pos [OF sr pos] have n: "nat n = length g" "length g \<le> count" by auto
      from ih n res sys_read_stream [OF sr] sys_read_rx_bytes [OF sr] show ?thesis
        by auto
    qed
  qed
qed

lemma sys_write_pos:
  "sys_write lims buf = (n, lims') \<Longrightarrow> 0 < n \<Longrightarrow> 0 < nat n \<and> nat n \<le> length buf"
  by (auto simp add: sys_write_def split: list.splits if_splits)

lemma sys_write_good:
  "sys_write lims buf = (n, lims') \<Longrightarrow> \<forall>m\<in>set lims. 0 < m \<Longrightarrow> buf \<noteq> [] \<Longrightarrow>
     0 < n \<and> (\<forall>m\<in>set lims'. 0 < m)"
  by (auto simp add: sys_write_def MAX_RW_COUNT_def split: list.splits if_splits)

lemma write_all_spec:
  "write_all s buf = (st, s') \<Longrightarrow>
     (\<exists>outs. prefix outs buf \<and> trace s' = trace s @ map Sent outs \<and>
        (st = Completed \<longrightarrow> outs = buf) \<and>
        (st = AssertFailed \<longrightarrow> length outs < length buf)) \<and>
     s' = s\<lparr>wr_limits := wr_limits s', trace := trace s'\<rparr> \<and>
     ((\<forall>m\<in>set (wr_limits s). 0 < m) \<longrightarrow> st = Completed \<and> (\<forall>m\<in>set (wr_limits s'). 0 < m))"
proof (induction s buf arbitrary: st s' rule: write_all.induct)
  case (1 s buf)
  show ?case
  proof (cases "length buf > 0")
    case False
    with "1.prems" show ?thesis by (simp add: write_all.simps)
  next
    case True
    obtain n lims where sw: "sys_write (wr_limits s) buf = (n, lims)"
      by (cases "sys_write (wr_limits s) buf") auto
    show ?thesis
    proof (cases "0 < n")
      case False
      with True sw "1.prems" have "st = AssertFailed" "s' = s\<lparr>wr_limits := lims\<rparr>"
        by (simp_all add: write_all.simps [of s buf])
      moreover have "\<not> (\<forall>m\<in>set (wr_limits s). 0 < m)"
      proof
        assume a: "\<forall>m\<in>set (wr_limits s). 0 < m"
        from sys_write_good [OF sw a] True False show False by auto
      qed
      ultimately show ?thesis using True
        by (auto intro!: exI [of _ "[]"])
    next
      case pos: True
      let ?k = "nat n"
      let ?s1 = "s\<lparr>wr_limits := lims, trace := trace s @ map Sent (take ?k buf)\<rparr>"
      from True sw pos "1.prems" have wa: "write_all ?s1 (drop ?k buf) = (st, s')"
        by (simp add: write_all.simps [of s buf])
      from "1.IH" [OF True sw [symmetric] pos wa]
      obtain outs where ih: "prefix outs (drop ?k buf)"
        "trace s' = trace ?s1 @ map Sent outs"
        "st = Completed \<longrightarrow> outs = drop ?k buf"
        "st = AssertFailed \<longrightarrow> length outs < length (drop ?k buf)"
        "s' = ?s1\<lparr>wr_limits := wr_limits s', trace := trace s'\<rparr>"
        "(\<forall>m\<in>set (wr_limits ?s1). 0 < m) \<longrightarrow> st = Completed \<and> (\<forall>m\<in>set (wr_limits s'). 0 < m)"
        by blast
      from sys_write_pos [OF sw pos] have k: "0 < ?k" "?k \<le> length buf" by auto
      have p: "prefix (take ?k buf @ outs) buf"
        using ih(1) by (metis append_take_drop_id same_prefix_prefix)
      have l: "st = AssertFailed \<longrightarrow> length (take ?k buf @ outs) < length buf"
        using ih(4) k by auto
      have c: "st = Completed \<longrightarrow> take ?k buf @ outs = buf"
        using ih(3) by auto
      have t: "trace s' = trace s @ map Sent (take ?k buf @ outs)"
        using ih(2) by simp
      have g: "(\<forall>m\<in>set (wr_limits s). 0 < m) \<longrightarrow> st = Completed \<and> (\<forall>m\<in>set (wr_limits s'). 0 < m)"
        using ih(6) sys_write_good [OF sw] True by auto
      have f: "s' = s\<lparr>wr_limits := wr_limits s', trace := trace s'\<rparr>"
        using ih(5) by simp
      from p l c t g f show ?thesis by blast
    qed
  qed
qed

lemma write_all_frame:
  assumes "write_all s buf = (st, s')"
  shows "rx s' = rx s" "user s' = user s" "heap_junk s' = heap_junk s"
    "nbd_dev_to_disconnect s' = nbd_dev_to_disconnect s" "ioctls s' = ioctls s"
    "stderr s' = stderr s"
proof -
  from write_all_spec [OF assms]
  have e: "s' = s\<lparr>wr_limits := wr_limits s', trace := trace s'\<rparr>" by blast
  from arg_cong [OF e, of rx] show "rx s' = rx s" by simp
  from arg_cong [OF e, of user] show "user s' = user s" by simp
  from arg_cong [OF e, of heap_junk] show "heap_junk s' = heap_junk s" by simp
  from arg_cong [OF e, of nbd_dev_to_disconnect]
  show "nbd_dev_to_disconnect s' = nbd_dev_to_disconnect s" by simp
  from arg_cong [OF e, of ioctls] show "ioctls s' = ioctls s" by simp
  from arg_cong [OF e, of stderr] show "stderr s' = stderr s" by simp
qed

lemma read_all_frame:
  assumes "read_all s count = (st, got, s')"
  shows "wr_limits s' = wr_limits s" "user s' = user s" "heap_junk s' = heap_junk s"
    "nbd_dev_to_disconnect s' = nbd_dev_to_disconnect s" "ioctls s' = ioctls s"
    "stderr s' = stderr s"
proof -
  from read_all_spec [OF assms]
  have e: "s' = s\<lparr>rx := rx s', trace := trace s'\<rparr>" by blast
  from arg_cong [OF e, of wr_limits] show "wr_limits s' = wr_limits s" by simp
  from arg_cong [OF e, of user] show "user s' = user s" by simp
  from arg_cong [OF e, of heap_junk] show "heap_junk s' = heap_junk s" by simp
  from arg_cong [OF e, of nbd_dev_to_disconnect]
  show "nbd_dev_to_disconnect s' = nbd_dev_to_disconnect s" by simp
  from arg_cong [OF e, of ioctls] show "ioctls s' = ioctls s" by simp
  from arg_cong [OF e, of stderr] show "stderr s' = stderr s" by simp
qed

lemma read_all_rx_bytes:
  "read_all s count = (st, got, s') \<Longrightarrow> rx_bytes (rx s') \<le> rx_bytes (rx s)"
  using read_all_spec [of s count st got s'] by simp

lemma cmd_read_rx: "cmd_read cfg aop s reply len from = (fl, s') \<Longrightarrow> rx s' = rx s"
  by (auto simp add: cmd_read_def Let_def write_all_frame(1)
      split: option.splits prod.splits status.splits)

lemma cmd_write_rx:
  "cmd_write cfg aop s reply len from = (fl, s') \<Longrightarrow> rx_bytes (rx s') \<le> rx_bytes (rx s)"
  by (auto simp add: cmd_write_def Let_def write_all_frame(1)
      split: option.splits prod.splits status.splits dest: read_all_rx_bytes)

lemma cmd_disc_rx: "cmd_disc aop s = (fl, s') \<Longrightarrow> rx s' = rx s"
  by (auto simp add: cmd_disc_def split: option.splits)

lemma cmd_flush_rx: "cmd_flush cfg aop s reply = (fl, s') \<Longrightarrow> rx s' = rx s"
  by (auto simp add: cmd_flush_def Let_def write_all_frame(1)
      split: option.splits prod.splits status.splits)

lemma cmd_trim_rx: "cmd_trim cfg aop s reply len from = (fl, s') \<Longrightarrow> rx s' = rx s"
  by (auto simp add: cmd_trim_def Let_def write_all_frame(1)
      split: option.splits prod.splits status.splits)

lemma serve_request_rx:
  "serve_request cfg aop s hdr = (fl, s') \<Longrightarrow> rx_bytes (rx s') \<le> rx_bytes (rx s)"
  by (auto simp add: serve_request_def Let_def split: if_splits
      dest: cmd_read_rx cmd_write_rx cmd_disc_rx cmd_flush_rx cmd_trim_rx)

lemma serve_iter_decreases:
  "serve_iter cfg aop s = (Continue, s') \<Longrightarrow> rx_bytes (rx s') < rx_bytes (rx s)"
proof -
  assume a: "serve_iter cfg aop s = (Continue, s')"
  obtain n g ar where sr: "sys_read (rx s) sizeof_nbd_request = (n, g, ar)"
    by (cases "sys_read (rx s) sizeof_nbd_request") auto
  from a sr have pos: "0 < n"
    by (auto simp add: serve_iter_def split: if_splits)
  from a sr pos
  have "serve_request cfg aop (s\<lparr>rx := ar, trace := trace s @ map Recv g\<rparr>) g = (Continue, s')"
    by (auto simp add: serve_iter_def Let_def split: if_splits)
  from serve_request_rx [OF this] have "rx_bytes (rx s') \<le> rx_bytes ar" by simp
  moreover from sys_read_pos [OF sr pos] sys_read_rx_bytes [OF sr] pos
  have "rx_bytes ar < rx_bytes (rx s)" by auto
  ultimately show ?thesis by simp
qed

text \<open>The loop of \<^verbatim>\<open>serve_nbd\<close> (lines 112--197).\<close>

function serve_nbd :: "config \<Rightarrow> 'u buse_operations \<Rightarrow> 'u state \<Rightarrow> outcome \<times> 'u state" where
  "serve_nbd cfg aop s =
     (case serve_iter cfg aop s of
        (Continue, s') \<Rightarrow> serve_nbd cfg aop s'
      | (Stop r, s') \<Rightarrow> (r, s'))"
  by pat_completeness auto
termination
  by (relation "measure (\<lambda>(cfg, aop, s). rx_bytes (rx s))")
     (auto dest: serve_iter_decreases [OF sym])

declare serve_nbd.simps [simp del]

section \<open>The disconnect state and the session set-up\<close>

text \<open>
  Line 88 initialises \<^verbatim>\<open>nbd_dev_to_disconnect\<close> to \<open>-1\<close>: the process starts with no active
  device, and nothing observed yet.
\<close>

definition initial_state :: "arrival list \<Rightarrow> nat list \<Rightarrow> 'u \<Rightarrow> 'u state" where
  "initial_state ar lims u =
     \<lparr> rx = ar, wr_limits = lims, heap_junk = (\<lambda>i. 0), trace = [], user = u,
       nbd_dev_to_disconnect = - 1, ioctls = [], stderr = [] \<rparr>"

text \<open>
  \<^verbatim>\<open>disconnect_nbd\<close> (lines 89--99), the handler of SIGINT and SIGTERM.  \<open>ioctl_ret\<close> is
  what the kernel answers to the request, if the handler makes it.
\<close>

definition disconnect_nbd :: "int \<Rightarrow> int \<Rightarrow> 'u state \<Rightarrow> 'u state" where
  "disconnect_nbd signal ioctl_ret s =
     (if nbd_dev_to_disconnect s \<noteq> - 1 then
        (let s = s\<lparr>ioctls := ioctls s @ [(nbd_dev_to_disconnect s, NBD_DISCONNECT)]\<rparr>
         in if ioctl_ret = - 1 then s\<lparr>stderr := stderr s @ [WarnDisconnectFailed]\<rparr>
            else s\<lparr>nbd_dev_to_disconnect := - 1, stderr := stderr s @ [MsgDisconnectRequested]\<rparr>)
      else s)"

text \<open>
  \<^verbatim>\<open>buse_main\<close> (lines 199--310) is a sequence of system calls; what each of them returns
  is given by the environment, one answer for each place of the text that makes a call.
  For the two \<^verbatim>\<open>sigaction\<close> calls the environment also says whether the handler in place
  was the default one (0) or not.
\<close>

datatype callsite =
    SocketPair | OpenDev | IoctlSetBlksize | IoctlSetSize | IoctlSetSizeBlocks | IoctlClearSock
  | Fork | SigFillSet | SigProcMask | IoctlSetSock | IoctlSetFlags | IoctlDoIt | IoctlClearQue
  | IoctlClearSockChild | SigEmptySet | SigAddSetInt | SigAddSetTerm | SigactionInt
  | SigactionTerm | OldHandlerInt | OldHandlerTerm | OpenTmp

definition ioctl ::
  "(callsite \<Rightarrow> int) \<Rightarrow> callsite \<Rightarrow> int \<Rightarrow> ioctl_request \<Rightarrow> 'u state \<Rightarrow> int \<times> 'u state" where
  "ioctl sys site fd req s = (sys site, s\<lparr>ioctls := ioctls s @ [(fd, req)]\<rparr>)"

text \<open>An \<^verbatim>\<open>ioctl\<close> followed by \<^verbatim>\<open>assert(err != -1)\<close>.\<close>

definition asserted_ioctl ::
  "(callsite \<Rightarrow> int) \<Rightarrow> callsite \<Rightarrow> int \<Rightarrow> ioctl_request \<Rightarrow> 'u state \<Rightarrow> status \<times> 'u state" where
  "asserted_ioctl sys site fd req s =
     (case ioctl sys site fd req s of
        (err, s) \<Rightarrow> (if err \<noteq> - 1 then Completed else AssertFailed, s))"

text \<open>\<^verbatim>\<open>set_sigaction\<close> (lines 102--109).\<close>

definition set_sigaction ::
  "(callsite \<Rightarrow> int) \<Rightarrow> callsite \<Rightarrow> callsite \<Rightarrow> 'u state \<Rightarrow> int \<times> 'u state" where
  "set_sigaction sys site old s =
     (let r = sys site
      in (r, if r = 0 \<and> sys old \<noteq> 0 then s\<lparr>stderr := stderr s @ [WarnOverridenHandler]\<rparr> else s))"

text \<open>Lines 216--230: the geometry of the device and the first \<^verbatim>\<open>NBD_CLEAR_SOCK\<close>.\<close>

definition device_setup ::
  "(callsite \<Rightarrow> int) \<Rightarrow> 'u buse_operations \<Rightarrow> int \<Rightarrow> 'u state \<Rightarrow> status \<times> 'u state" where
  "device_setup sys aop nbd s =
     (case (if op_blksize aop \<noteq> 0 then asserted_ioctl sys IoctlSetBlksize nbd NBD_SET_BLKSIZE s
            else (Completed, s)) of
        (AssertFailed, s) \<Rightarrow> (AssertFailed, s)
      | (Completed, s) \<Rightarrow>
     (case (if op_size aop \<noteq> 0 then asserted_ioctl sys IoctlSetSize nbd NBD_SET_SIZE s
            else (Completed, s)) of
        (AssertFailed, s) \<Rightarrow> (AssertFailed, s)
      | (Completed, s) \<Rightarrow>
     (case (if op_size_blocks aop \<noteq> 0
            then asserted_ioctl sys IoctlSetSizeBlocks nbd NBD_SET_SIZE_BLOCKS s
            else (Completed, s)) of
        (AssertFailed, s) \<Rightarrow> (AssertFailed, s)
      | (Completed, s) \<Rightarrow> asserted_ioctl sys IoctlClearSock nbd NBD_CLEAR_SOCK s)))"

text \<open>Lines 266--274, in the child.\<close>

definition child_cleanup :: "(callsite \<Rightarrow> int) \<Rightarrow> int \<Rightarrow> 'u state \<Rightarrow> outcome \<times> 'u state" where
  "child_cleanup sys nbd s =
     (case ioctl sys IoctlClearQue nbd NBD_CLEAR_QUE s of
        (r, s) \<Rightarrow>
          if r = - 1 then (Exited EXIT_FAILURE, s\<lparr>stderr := stderr s @ [MsgCleanupFailed]\<rparr>)
          else
            (case ioctl sys IoctlClearSockChild nbd NBD_CLEAR_SOCK s of
               (r, s) \<Rightarrow>
                 if r = - 1 then (Exited EXIT_FAILURE, s\<lparr>stderr := stderr s @ [MsgCleanupFailed]\<rparr>)
                 else (Exited 0, s)))"

text \<open>Lines 232--275: the child, which hands the socket to the kernel and exits.\<close>

definition buse_child ::
  "config \<Rightarrow> (callsite \<Rightarrow> int) \<Rightarrow> int \<Rightarrow> 'u state \<Rightarrow> outcome \<times> 'u state" where
  "buse_child cfg sys nbd s =
     (if sys SigFillSet \<noteq> 0 \<or> sys SigProcMask \<noteq> 0
      then (Exited EXIT_FAILURE, s\<lparr>stderr := stderr s @ [WarnBlockSignals]\<rparr>)
      else
        (case ioctl sys IoctlSetSock nbd NBD_SET_SOCK s of
           (r, s) \<Rightarrow>
             if r = - 1 then (Exited EXIT_FAILURE, s\<lparr>stderr := stderr s @ [MsgSetSockFailed]\<rparr>)
             else
               (case (if have_set_flags cfg \<and> have_send_trim cfg
                      then ioctl sys IoctlSetFlags nbd NBD_SET_FLAGS s else (0, s)) of
                  (r, s) \<Rightarrow>
                    if r = - 1 then child_cleanup sys nbd (s\<lparr>stderr := stderr s @ [MsgSetFlagsFailed]\<rparr>)
                    else
                      (case ioctl sys IoctlDoIt nbd NBD_DO_IT s of
                         (err, s) \<Rightarrow>
                           (let s = s\<lparr>stderr := stderr s @ [MsgDeviceTerminated err]\<rparr>
                            in if err = - 1
                               then (Exited EXIT_FAILURE, s\<lparr>stderr := stderr s @ [MsgStrerror]\<rparr>)
                               else child_cleanup sys nbd s)))))"

text \<open>Lines 277--309: the parent, which records the device and serves the requests.\<close>

definition buse_parent ::
  "config \<Rightarrow> (callsite \<Rightarrow> int) \<Rightarrow> 'u buse_operations \<Rightarrow> int \<Rightarrow> 'u state \<Rightarrow> outcome \<times> 'u state" where
  "buse_parent cfg sys aop nbd s =
     (if nbd_dev_to_disconnect s \<noteq> - 1 then (Aborted, s)
      else
        (let s = s\<lparr>nbd_dev_to_disconnect := nbd\<rparr>
         in if sys SigEmptySet \<noteq> 0 \<or> sys SigAddSetInt \<noteq> 0 \<or> sys SigAddSetTerm \<noteq> 0
            then (Returned EXIT_FAILURE, s\<lparr>stderr := stderr s @ [WarnSignalMask]\<rparr>)
            else
              (case set_sigaction sys SigactionInt OldHandlerInt s of
                 (r, s) \<Rightarrow>
                   if r \<noteq> 0 then (Returned EXIT_FAILURE, s\<lparr>stderr := stderr s @ [WarnSignalHandlers]\<rparr>)
                   else
                     (case set_sigaction sys SigactionTerm OldHandlerTerm s of
                        (r, s) \<Rightarrow>
                          if r \<noteq> 0
                          then (Returned EXIT_FAILURE, s\<lparr>stderr := stderr s @ [WarnSignalHandlers]\<rparr>)
                          else if sys OpenTmp = - 1 then (Aborted, s)
                          else serve_nbd cfg aop s))))"

definition buse_main ::
  "config \<Rightarrow> (callsite \<Rightarrow> int) \<Rightarrow> 'u buse_operations \<Rightarrow> 'u state \<Rightarrow> outcome \<times> 'u state" where
  "buse_main cfg sys aop s =
     (if sys SocketPair \<noteq> 0 then (Aborted, s)
      else
        (let nbd = sys OpenDev
         in if nbd = - 1 then (Returned 1, s\<lparr>stderr := stderr s @ [MsgOpenFailed]\<rparr>)
            else
              (case device_setup sys aop nbd s of
                 (AssertFailed, s) \<Rightarrow> (Aborted, s)
               | (Completed, s) \<Rightarrow>
                   if sys Fork = 0 then buse_child cfg sys nbd s
                   else buse_parent cfg sys aop nbd s)))"

section \<open>Examples\<close>

text \<open>
  A little-endian Linux host whose headers define the three \<^verbatim>\<open>NBD_\<close> symbols and a build
  without \<^verbatim>\<open>WORDS_BIGENDIAN\<close>; and an operation table with no callback and no geometry.
\<close>

definition linux_le :: config where
  "linux_le = \<lparr> host_order = LittleEndian, words_bigendian = False, have_send_flush = True,
                 have_send_trim = True, have_set_flags = True \<rparr>"

definition no_operations :: "'u buse_operations" where
  "no_operations = \<lparr> op_read = None, op_write = None, op_disc = None, op_flush = None,
                      op_trim = None, op_size = 0, op_blksize = 0, op_size_blocks = 0 \<rparr>"

text \<open>
  Headers as the kernel puts them on the wire, for the examples: magic, type, handle
  \<open>1 \<dots> 8\<close>, offset and length, every integer in network order.
\<close>

definition example_header :: "byte list \<Rightarrow> byte list \<Rightarrow> byte list \<Rightarrow> byte list" where
  "example_header ty off len = [0x25, 0x60, 0x95, 0x13] @ ty @ [1, 2, 3, 4, 5, 6, 7, 8] @ off @ len"

definition disc_header :: "byte list" where
  "disc_header = example_header [0, 0, 0, 2] [0, 0, 0, 0, 0, 0, 0, 0] [0, 0, 0, 0]"

definition unknown_header :: "byte list" where
  "unknown_header = example_header [0, 0, 0, 9] [0, 0, 0, 0, 0, 0, 0, 0] [0, 0, 0, 0]"

text \<open>
  A WRITE request for four bytes at offset 512 with its payload, and a READ request for two
  bytes at offset 0, as the kernel sends them.
\<close>

definition write_header :: "byte list" where
  "write_header = example_header [0, 0, 0, 1] [0, 0, 0, 0, 0, 0, 2, 0] [0, 0, 0, 4]"

definition read_header :: "byte list" where
  "read_header = example_header [0, 0, 0, 0] [0, 0, 0, 0, 0, 0, 0, 0] [0, 0, 0, 2]"

text \<open>A TRIM request for two bytes at offset 0, and the session that receives it.\<close>

definition trim_header :: "byte list" where
  "trim_header = example_header [0, 0, 0, 4] [0, 0, 0, 0, 0, 0, 0, 0] [0, 0, 0, 2]"

text \<open>
  A write callback that appends the offset and the data to the user data and returns 0,
  and the session in which the kernel sends the WRITE request and its four payload bytes
  in one segment.
\<close>

definition recording_write ::
  "byte list \<Rightarrow> u32 \<Rightarrow> u64 \<Rightarrow> (u64 \<times> byte list) list \<Rightarrow> u32 \<times> (u64 \<times> byte list) list" where
  "recording_write buf len from u = (0, u @ [(from, buf)])"

definition write_table :: "(u64 \<times> byte list) list buse_operations" where
  "write_table = no_operations\<lparr>op_write := Some recording_write\<rparr>"

definition write_session :: "(u64 \<times> byte list) list state" where
  "write_session = initial_state [Bytes (write_header @ [1, 2, 3, 4])] [] []"

definition write_session_after :: "(u64 \<times> byte list) list state" where
  "write_session_after =
     write_session
       \<lparr>rx := [],
        trace := map Recv write_header @ map Recv [1, 2, 3, 4]
                 @ [Call (CallWrite [1, 2, 3, 4] 4 512)]
                 @ map Sent [0x67, 0x44, 0x66, 0x98, 0, 0, 0, 0, 1, 2, 3, 4, 5, 6, 7, 8],
        user := [(512, [1, 2, 3, 4])],
        stderr := [MsgWriteRequest 4]\<rparr>"



definition trim_session :: "unit state" where
  "trim_session = initial_state [Bytes trim_header] [] ()"

definition trim_session_after :: "unit state" where
  "trim_session_after =
     trim_session
       \<lparr>rx := [],
        trace := map Recv trim_header
                 @ map Sent [0x67, 0x44, 0x66, 0x98, 0, 0, 0, 0, 1, 2, 3, 4, 5, 6, 7, 8]\<rparr>"



text \<open>
  A write callback that fails with \<^verbatim>\<open>EIO\<close> (5), and the session in which the kernel sends
  the WRITE request of the example to a process that has this callback.
\<close>

definition failing_write :: "byte list \<Rightarrow> u32 \<Rightarrow> u64 \<Rightarrow> unit \<Rightarrow> u32 \<times> unit" where
  "failing_write buf len from u = (5, u)"

definition failing_session :: "unit state" where
  "failing_session = initial_state [Bytes (write_header @ [1, 2, 3, 4])] [] ()"

section \<open>Auxiliary notions\<close>

text \<open>The two halves of a 64-bit value put together, as line 52 does.\<close>

definition join_halves :: "u32 \<Rightarrow> u32 \<Rightarrow> u64" where
  "join_halves p q = push_bit 32 (ucast p) OR ucast q"





text \<open>
  The next \<open>n\<close> bytes of the channel arrive: no failing call and no end-of-stream
  indication comes before them.
\<close>

fun delivers :: "arrival list \<Rightarrow> nat \<Rightarrow> bool" where
  "delivers [] n = (n = 0)"
| "delivers (Failure # rest) n = (n = 0)"
| "delivers (Bytes seg # rest) n = (n = 0 \<or> (seg \<noteq> [] \<and> delivers rest (n - length seg)))"

section \<open>Lemmas\<close>

lemma mask_ff000000: "(0xff000000 :: u32) = push_bit 24 (mask 8)"
  by (simp add: mask_eq_exp_minus_1)

lemma mask_00ff0000: "(0x00ff0000 :: u32) = push_bit 16 (mask 8)"
  by (simp add: mask_eq_exp_minus_1)

lemma mask_0000ff00: "(0x0000ff00 :: u32) = push_bit 8 (mask 8)"
  by (simp add: mask_eq_exp_minus_1)

lemma mask_000000ff: "(0x000000ff :: u32) = mask 8"
  by (simp add: mask_eq_exp_minus_1)

lemma mask_ffffffff: "(0xffffffff :: u64) = mask 32"
  by (simp add: mask_eq_exp_minus_1)

lemma u32_bit_oob: "32 \<le> m \<Longrightarrow> \<not> bit (x::u32) m"
  by (auto dest: bit_imp_le_length)

lemma bswap_32_alt:
  "bswap_32 x = drop_bit 24 x OR push_bit 16 (take_bit 8 (drop_bit 8 x))
     OR push_bit 8 (take_bit 8 (drop_bit 16 x)) OR push_bit 24 (take_bit 8 x)"
  unfolding bswap_32_def mask_ff000000 mask_00ff0000 mask_0000ff00 mask_000000ff
  apply (rule bit_word_eqI)
  apply (simp add: bit_simps)
  apply (auto dest: bit_imp_le_length)
  done

lemma bswap_32_bit0: "n < 8 \<Longrightarrow> bit (bswap_32 x) n = bit x (n + 24)"
  unfolding bswap_32_alt by (auto simp add: bit_simps u32_bit_oob add.commute)

lemma bswap_32_bit1: "8 \<le> n \<Longrightarrow> n < 16 \<Longrightarrow> bit (bswap_32 x) n = bit x (n + 8)"
  unfolding bswap_32_alt by (auto simp add: bit_simps u32_bit_oob add.commute)

lemma bswap_32_bit2: "16 \<le> n \<Longrightarrow> n < 24 \<Longrightarrow> bit (bswap_32 x) n = bit x (n - 8)"
  unfolding bswap_32_alt by (auto simp add: bit_simps u32_bit_oob add.commute)

lemma bswap_32_bit3: "24 \<le> n \<Longrightarrow> n < 32 \<Longrightarrow> bit (bswap_32 x) n = bit x (n - 24)"
  unfolding bswap_32_alt by (auto simp add: bit_simps u32_bit_oob add.commute)

lemma bswap_32_bswap_32: "bswap_32 (bswap_32 x) = x"
proof (rule bit_word_eqI)
  fix n assume "n < LENGTH(32)"
  then consider "n < 8" | "8 \<le> n \<and> n < 16" | "16 \<le> n \<and> n < 24" | "24 \<le> n \<and> n < 32"
    by fastforce
  then show "bit (bswap_32 (bswap_32 x)) n = bit x n"
  proof cases
    case 1 then show ?thesis by (simp add: bswap_32_bit0 bswap_32_bit3)
  next
    case 2 then show ?thesis by (simp add: bswap_32_bit1 bswap_32_bit2)
  next
    case 3 then have "8 \<le> n - 8" "n - 8 < 16" by arith+
    with 3 show ?thesis by (simp add: bswap_32_bit1 bswap_32_bit2)
  next
    case 4 then have "n - 24 < 8" by arith
    with 4 show ?thesis by (simp add: bswap_32_bit0 bswap_32_bit3)
  qed
qed

lemma ntohl_ntohl: "ntohl ho (ntohl ho x) = x"
  by (cases ho) (simp_all add: ntohl_def bswap_32_bswap_32)

lemma htonl_eq_ntohl: "htonl ho x = ntohl ho x"
  by (simp add: htonl_def ntohl_def)

lemma bit_join_halves: "bit (join_halves p q) n = (if n < 32 then bit q n else bit p (n - 32))"
  by (auto simp add: join_halves_def bit_simps u32_bit_oob dest: bit_imp_le_length)

lemma low_half: "(ucast (join_halves p q AND 0xffffffff) :: u32) = q"
  unfolding mask_ffffffff
  by (rule bit_word_eqI) (simp add: bit_simps bit_join_halves)

lemma high_half: "(ucast (drop_bit 32 (join_halves p q)) :: u32) = p"
  by (rule bit_word_eqI) (simp add: bit_simps bit_join_halves)

lemma halves_again: "join_halves (ucast (drop_bit 32 a)) (ucast ((a::u64) AND 0xffffffff)) = a"
  unfolding mask_ffffffff
  by (rule bit_word_eqI) (auto simp add: bit_simps bit_join_halves)

lemma ntohll_ntohll: "ntohll cfg (ntohll cfg a) = a"
  by (simp add: ntohll_def Let_def join_halves_def [symmetric] low_half high_half ntohl_ntohl
      halves_again)

lemma cmd_read_dev:
  "cmd_read cfg aop s reply len from = (fl, s') \<Longrightarrow>
     nbd_dev_to_disconnect s' = nbd_dev_to_disconnect s"
  by (auto simp add: cmd_read_def Let_def write_all_frame(4)
      split: option.splits prod.splits status.splits)

lemma cmd_write_dev:
  "cmd_write cfg aop s reply len from = (fl, s') \<Longrightarrow>
     nbd_dev_to_disconnect s' = nbd_dev_to_disconnect s"
  by (auto simp add: cmd_write_def Let_def write_all_frame(4) read_all_frame(4)
      split: option.splits prod.splits status.splits)

lemma cmd_disc_dev:
  "cmd_disc aop s = (fl, s') \<Longrightarrow> nbd_dev_to_disconnect s' = nbd_dev_to_disconnect s"
  by (auto simp add: cmd_disc_def split: option.splits)

lemma cmd_flush_dev:
  "cmd_flush cfg aop s reply = (fl, s') \<Longrightarrow> nbd_dev_to_disconnect s' = nbd_dev_to_disconnect s"
  by (auto simp add: cmd_flush_def Let_def write_all_frame(4)
      split: option.splits prod.splits status.splits)

lemma cmd_trim_dev:
  "cmd_trim cfg aop s reply len from = (fl, s') \<Longrightarrow>
     nbd_dev_to_disconnect s' = nbd_dev_to_disconnect s"
  by (auto simp add: cmd_trim_def Let_def write_all_frame(4)
      split: option.splits prod.splits status.splits)

lemma serve_request_dev:
  "serve_request cfg aop s hdr = (fl, s') \<Longrightarrow>
     nbd_dev_to_disconnect s' = nbd_dev_to_disconnect s"
  by (auto simp add: serve_request_def Let_def split: if_splits
      dest: cmd_read_dev cmd_write_dev cmd_disc_dev cmd_flush_dev cmd_trim_dev)

lemma serve_iter_dev:
  "serve_iter cfg aop s = (fl, s') \<Longrightarrow> nbd_dev_to_disconnect s' = nbd_dev_to_disconnect s"
  by (auto simp add: serve_iter_def Let_def split: prod.splits if_splits
      dest: serve_request_dev)

lemma serve_nbd_dev:
  "serve_nbd cfg aop s = (r, s') \<Longrightarrow> nbd_dev_to_disconnect s' = nbd_dev_to_disconnect s"
proof (induction cfg aop s rule: serve_nbd.induct)
  case (1 cfg aop s)
  obtain fl s1 where it: "serve_iter cfg aop s = (fl, s1)"
    by (cases "serve_iter cfg aop s") auto
  show ?case
  proof (cases fl)
    case Continue
    with it "1.prems" have "serve_nbd cfg aop s1 = (r, s')"
      by (simp add: serve_nbd.simps [of cfg aop s])
    from "1.IH" [OF it [symmetric] Continue this] serve_iter_dev [OF it]
    show ?thesis by simp
  next
    case (Stop x)
    with it "1.prems" have "s' = s1"
      by (simp add: serve_nbd.simps [of cfg aop s])
    with serve_iter_dev [OF it] show ?thesis by simp
  qed
qed

lemma device_setup_dev:
  "device_setup sys aop nbd s = (st, s') \<Longrightarrow>
     nbd_dev_to_disconnect s' = nbd_dev_to_disconnect s \<and> trace s' = trace s"
  by (auto simp add: device_setup_def asserted_ioctl_def ioctl_def
      split: if_splits prod.splits status.splits)

lemma child_cleanup_dev:
  "child_cleanup sys nbd s = (r, s') \<Longrightarrow>
     nbd_dev_to_disconnect s' = nbd_dev_to_disconnect s \<and> trace s' = trace s \<and> (\<exists>c. r = Exited c)"
  by (auto simp add: child_cleanup_def ioctl_def split: if_splits prod.splits)

lemma buse_child_dev:
  "buse_child cfg sys nbd s = (r, s') \<Longrightarrow>
     nbd_dev_to_disconnect s' = nbd_dev_to_disconnect s \<and> trace s' = trace s \<and> (\<exists>c. r = Exited c)"
  by (auto simp add: buse_child_def ioctl_def Let_def split: if_splits prod.splits
      dest!: child_cleanup_dev)

lemma set_sigaction_dev:
  "set_sigaction sys site old s = (r, s') \<Longrightarrow>
     nbd_dev_to_disconnect s' = nbd_dev_to_disconnect s \<and> r = sys site"
  by (auto simp add: set_sigaction_def Let_def split: if_splits)

lemma buse_parent_recorded:
  assumes "buse_parent cfg sys aop nbd s = (r, s')"
  shows "nbd_dev_to_disconnect s \<noteq> - 1 \<Longrightarrow> r = Aborted \<and> s' = s"
    and "nbd_dev_to_disconnect s = - 1 \<Longrightarrow> nbd_dev_to_disconnect s' = nbd"
proof -
  show "nbd_dev_to_disconnect s \<noteq> - 1 \<Longrightarrow> r = Aborted \<and> s' = s"
    using assms by (simp add: buse_parent_def)
  show "nbd_dev_to_disconnect s = - 1 \<Longrightarrow> nbd_dev_to_disconnect s' = nbd"
    using assms
    by (auto simp add: buse_parent_def Let_def split: if_splits prod.splits
        dest!: set_sigaction_dev serve_nbd_dev)
qed

lemma serve_nbd_stop:
  "serve_iter cfg aop s = (Stop r, s') \<Longrightarrow> serve_nbd cfg aop s = (r, s')"
  by (simp add: serve_nbd.simps [of cfg aop s])

lemma serve_nbd_continue:
  "serve_iter cfg aop s = (Continue, s') \<Longrightarrow> serve_nbd cfg aop s = serve_nbd cfg aop s'"
  by (simp add: serve_nbd.simps [of cfg aop s])

lemma example_header_length:
  "length ty = 4 \<Longrightarrow> length off = 8 \<Longrightarrow> length len = 4 \<Longrightarrow>
     sys_read [Bytes (example_header ty off len)] sizeof_nbd_request
       = (int sizeof_nbd_request, example_header ty off len, [])"
  by (simp add: sys_read_def example_header_def sizeof_nbd_request_def MAX_RW_COUNT_def)

lemma example_header_magic:
  "req_magic (request_of_bytes (host_order linux_le) (example_header ty off len))
     = htonl (host_order linux_le) NBD_REQUEST_MAGIC"
  by (simp add: linux_le_def request_of_bytes_def load32_def htonl_def bswap_32_def
      NBD_REQUEST_MAGIC_def example_header_def)




lemma delivers_0: "delivers ar 0"
  by (cases "(ar, 0::nat)" rule: delivers.cases) simp_all





















lemma le_bytes_4:
  "le_bytes 4 x = [ucast x, ucast (drop_bit 8 x), ucast (drop_bit 16 x), ucast (drop_bit 24 x)]"
  by (simp add: numeral_eq_Suc)

lemmas eval_defs = le_bytes_4 serve_iter_def serve_request_def cmd_write_def cmd_read_def
  cmd_trim_def cmd_flush_def
  read_all.simps write_all.simps sys_read_def sys_write_def initial_state_def
  write_header_def read_header_def example_header_def linux_le_def no_operations_def
  sizeof_nbd_request_def MAX_RW_COUNT_def request_of_bytes_def reply_bytes_def
  load32_def load64_def store32_def ntohl_def htonl_def ntohll_def bswap_32_def
  NBD_REQUEST_MAGIC_def NBD_REPLY_MAGIC_def NBD_CMD_READ_def NBD_CMD_WRITE_def
  NBD_CMD_DISC_def NBD_CMD_FLUSH_def NBD_CMD_TRIM_def EPERM_def
  Let_def malloc_def overlay_def

lemma write_session_run: "serve_iter linux_le write_table write_session = (Continue, write_session_after)"
  by (simp add: eval_defs write_table_def write_session_def write_session_after_def
      recording_write_def)

lemma ucast_bswap_32_0: "(ucast (bswap_32 x) :: byte) = ucast (drop_bit 24 x)"
  by (rule bit_word_eqI) (simp add: bit_simps bswap_32_bit0 add.commute)

lemma ucast_bswap_32_1: "(ucast (drop_bit 8 (bswap_32 x)) :: byte) = ucast (drop_bit 16 x)"
proof (rule bit_word_eqI)
  fix n assume "n < LENGTH(8)"
  then have "8 \<le> 8 + n" "8 + n < 16" by simp_all
  from bswap_32_bit1 [OF this, of x] \<open>n < LENGTH(8)\<close>
  show "bit (ucast (drop_bit 8 (bswap_32 x)) :: byte) n = bit (ucast (drop_bit 16 x) :: byte) n"
    by (simp add: bit_simps add.commute add.left_commute)
qed

lemma ucast_bswap_32_2: "(ucast (drop_bit 16 (bswap_32 x)) :: byte) = ucast (drop_bit 8 x)"
proof (rule bit_word_eqI)
  fix n assume "n < LENGTH(8)"
  then have "16 \<le> 16 + n" "16 + n < 24" by simp_all
  from bswap_32_bit2 [OF this, of x] \<open>n < LENGTH(8)\<close>
  show "bit (ucast (drop_bit 16 (bswap_32 x)) :: byte) n = bit (ucast (drop_bit 8 x) :: byte) n"
    by (simp add: bit_simps add.commute)
qed

lemma ucast_bswap_32_3: "(ucast (drop_bit 24 (bswap_32 x)) :: byte) = ucast x"
proof (rule bit_word_eqI)
  fix n assume "n < LENGTH(8)"
  then have "24 \<le> 24 + n" "24 + n < 32" by simp_all
  from bswap_32_bit3 [OF this, of x] \<open>n < LENGTH(8)\<close>
  show "bit (ucast (drop_bit 24 (bswap_32 x)) :: byte) n = bit (ucast x :: byte) n"
    by (simp add: bit_simps add.commute)
qed

text \<open>A field set with \<^verbatim>\<open>htonl\<close> is big-endian on the wire on every host.\<close>

lemma store32_htonl: "store32 ho (htonl ho x) = be32_bytes x"
  by (cases ho)
     (simp_all add: store32_def htonl_def be32_bytes_def le_bytes_4
        ucast_bswap_32_0 ucast_bswap_32_1 ucast_bswap_32_2 ucast_bswap_32_3)

lemma be32_bytes_EPERM: "be32_bytes EPERM = [0, 0, 0, 1]"
  by (simp add: be32_bytes_def le_bytes_4 EPERM_def)





lemma trim_session_run: "serve_iter linux_le no_operations trim_session = (Continue, trim_session_after)"
  by (simp add: eval_defs trim_session_def trim_session_after_def trim_header_def)

text \<open>
  The magic of a reply, and the statuses the loop sets itself (0 and EPERM), pass through
  \<^verbatim>\<open>htonl\<close> and are big-endian on the wire on every host.
\<close>

lemma reply_magic_on_wire:
  "take 4 (reply_bytes ho \<lparr>rep_magic = htonl ho NBD_REPLY_MAGIC, rep_error = e, rep_handle = h\<rparr>)
     = be32_bytes NBD_REPLY_MAGIC"
  by (simp add: reply_bytes_def store32_htonl be32_bytes_def le_bytes_4)

section \<open>The properties\<close>





text \<open>
  C3.  Every integer field of a reply is meant to be big-endian on the wire whatever the
  host.  The magic and the statuses that the loop sets itself (0 and EPERM) are: they pass
  through \<^verbatim>\<open>htonl\<close> (lines 120, 121, 126, 146 and 161).  The status that a callback returns
  is not: lines 143, 158, 175 and 183 store it in \<^verbatim>\<open>reply.error\<close> as it is.  On a
  little-endian host a write callback returning 5 puts the bytes \<open>05 00 00 00\<close> in the
  status field, which the peer reads as \<open>0x05000000\<close>, where the big-endian encoding of 5
  is \<open>00 00 00 05\<close>; on the same host the status of a table without a write callback goes
  out as \<open>00 00 00 01\<close>, the big-endian EPERM.
\<close>

theorem callback_status_in_host_order:
  "serve_iter linux_le (no_operations\<lparr>op_write := Some failing_write\<rparr>) failing_session
     = (Continue,
        failing_session
          \<lparr>rx := [],
           trace := map Recv write_header @ map Recv [1, 2, 3, 4]
                    @ [Call (CallWrite [1, 2, 3, 4] 4 512)]
                    @ map Sent ([0x67, 0x44, 0x66, 0x98] @ [5, 0, 0, 0] @ [1, 2, 3, 4, 5, 6, 7, 8]),
           stderr := [MsgWriteRequest 4]\<rparr>) \<and>
   be32_bytes 5 = [0, 0, 0, 5] \<and>
   serve_iter linux_le no_operations failing_session
     = (Continue,
        failing_session
          \<lparr>rx := [],
           trace := map Recv write_header @ map Recv [1, 2, 3, 4]
                    @ map Sent ([0x67, 0x44, 0x66, 0x98] @ [0, 0, 0, 1] @ [1, 2, 3, 4, 5, 6, 7, 8]),
           stderr := [MsgWriteRequest 4]\<rparr>) \<and>
   be32_bytes EPERM = [0, 0, 0, 1]"
  by (simp add: eval_defs failing_session_def failing_write_def be32_bytes_def)

text \<open>
  C4.  When the channel is at its end with no byte of a header read (the peer has closed
  it, or the read returns 0), the loop ends and \<^verbatim>\<open>serve_nbd\<close> returns success; nothing is
  sent and no callback runs.  When the read of the header returns some bytes but fewer than
  a header, as it does when the channel closes in the middle of one, the assertion of
  line 124 fails: the process aborts, which is not the clean end.  A failing read makes
  \<^verbatim>\<open>serve_nbd\<close> return failure.
\<close>

theorem serve_nbd_end_of_channel:
  "(rx s = [] \<longrightarrow>
      serve_nbd cfg aop s = (Returned EXIT_SUCCESS, s) \<and> EXIT_SUCCESS = 0) \<and>
   (rx s = Bytes [] # rest \<longrightarrow>
      serve_nbd cfg aop s = (Returned EXIT_SUCCESS, s\<lparr>rx := rest\<rparr>)) \<and>
   (rx s = Bytes part # rest \<and> 0 < length part \<and> length part < sizeof_nbd_request \<longrightarrow>
      serve_nbd cfg aop s = (Aborted, s\<lparr>rx := rest, trace := trace s @ map Recv part\<rparr>)) \<and>
   (rx s = Failure # rest \<longrightarrow>
      serve_nbd cfg aop s =
        (Returned EXIT_FAILURE, s\<lparr>rx := rest, stderr := stderr s @ [MsgStrerror]\<rparr>))"
proof (intro conjI impI)
  assume a: "rx s = []"
  then have "s\<lparr>rx := []\<rparr> = s" by (cases s) simp
  with a have "serve_iter cfg aop s = (Stop (Returned EXIT_SUCCESS), s)"
    by (simp add: serve_iter_def sys_read_def)
  then show "serve_nbd cfg aop s = (Returned EXIT_SUCCESS, s)" by (rule serve_nbd_stop)
  show "EXIT_SUCCESS = 0" by (simp add: EXIT_SUCCESS_def)
next
  assume "rx s = Bytes [] # rest"
  then have "serve_iter cfg aop s = (Stop (Returned EXIT_SUCCESS), s\<lparr>rx := rest\<rparr>)"
    by (simp add: serve_iter_def sys_read_def)
  then show "serve_nbd cfg aop s = (Returned EXIT_SUCCESS, s\<lparr>rx := rest\<rparr>)"
    by (rule serve_nbd_stop)
next
  assume a: "rx s = Bytes part # rest \<and> 0 < length part \<and> length part < sizeof_nbd_request"
  then have k: "min sizeof_nbd_request (min (length part) MAX_RW_COUNT) = length part"
    by (simp add: sizeof_nbd_request_def MAX_RW_COUNT_def)
  from a have "sys_read (rx s) sizeof_nbd_request = (int (length part), part, rest)"
    by (simp add: sys_read_def Let_def k)
  with a have "serve_iter cfg aop s =
      (Stop Aborted, s\<lparr>rx := rest, trace := trace s @ map Recv part\<rparr>)"
    by (simp add: serve_iter_def Let_def)
  then show "serve_nbd cfg aop s = (Aborted, s\<lparr>rx := rest, trace := trace s @ map Recv part\<rparr>)"
    by (rule serve_nbd_stop)
next
  assume "rx s = Failure # rest"
  then have "serve_iter cfg aop s =
      (Stop (Returned EXIT_FAILURE), s\<lparr>rx := rest, stderr := stderr s @ [MsgStrerror]\<rparr>)"
    by (simp add: serve_iter_def sys_read_def)
  then show "serve_nbd cfg aop s =
      (Returned EXIT_FAILURE, s\<lparr>rx := rest, stderr := stderr s @ [MsgStrerror]\<rparr>)"
    by (rule serve_nbd_stop)
qed

theorem serve_nbd_end_of_channel_witness:
  "serve_nbd linux_le no_operations (initial_state [] [] ())
     = (Returned 0, initial_state [] [] ()) \<and>
   serve_nbd linux_le no_operations (initial_state [Bytes [0x25, 0x60, 0x95]] [] ())
     = (Aborted, (initial_state [Bytes [0x25, 0x60, 0x95]] [] ())
                   \<lparr>rx := [], trace := [Recv 0x25, Recv 0x60, Recv 0x95]\<rparr>)"
proof -
  let ?s = "initial_state [] [] ()"
  let ?t = "initial_state [Bytes [0x25, 0x60, 0x95]] [] ()"
  have a: "rx ?s = []" by (simp add: initial_state_def)
  have b: "rx ?t = Bytes [0x25, 0x60, 0x95] # [] \<and> 0 < length [0x25, 0x60, 0x95 :: byte]
           \<and> length [0x25, 0x60, 0x95 :: byte] < sizeof_nbd_request"
    by (simp add: initial_state_def sizeof_nbd_request_def)
  have c: "trace ?t = []" by (simp add: initial_state_def)
  from serve_nbd_end_of_channel [where s = ?s and cfg = linux_le and aop = no_operations] a
  have 1: "serve_nbd linux_le no_operations ?s = (Returned 0, ?s)"
    by (simp add: EXIT_SUCCESS_def)
  from serve_nbd_end_of_channel [where s = ?t and rest = "[]" and part = "[0x25, 0x60, 0x95]"
      and cfg = linux_le and aop = no_operations] b c
  have 2: "serve_nbd linux_le no_operations ?t
     = (Aborted, ?t\<lparr>rx := [], trace := [Recv 0x25, Recv 0x60, Recv 0x95]\<rparr>)"
    by simp
  from 1 2 show ?thesis by simp
qed



text \<open>
  C6.  On a DISCONNECT request the loop calls the disconnect callback when the table has
  one, sends nothing, reads nothing more, and \<^verbatim>\<open>serve_nbd\<close> returns success.
\<close>

theorem serve_nbd_disconnect:
  assumes "sys_read (rx s) sizeof_nbd_request = (int sizeof_nbd_request, hdr, ar)"
    and "req_magic (request_of_bytes (host_order cfg) hdr) = htonl (host_order cfg) NBD_REQUEST_MAGIC"
    and "ntohl (host_order cfg) (req_type (request_of_bytes (host_order cfg) hdr)) = NBD_CMD_DISC"
  shows "serve_nbd cfg aop s =
           (Returned EXIT_SUCCESS,
            (case op_disc aop of
               None \<Rightarrow> s\<lparr>rx := ar, trace := trace s @ map Recv hdr\<rparr>
             | Some f \<Rightarrow> s\<lparr>rx := ar, trace := trace s @ map Recv hdr @ [Call CallDisc],
                           user := f (user s)\<rparr>)) \<and>
         EXIT_SUCCESS = 0"
proof -
  from assms have "serve_iter cfg aop s =
      (Stop (Returned EXIT_SUCCESS),
       (case op_disc aop of
          None \<Rightarrow> s\<lparr>rx := ar, trace := trace s @ map Recv hdr\<rparr>
        | Some f \<Rightarrow> s\<lparr>rx := ar, trace := trace s @ map Recv hdr @ [Call CallDisc],
                      user := f (user s)\<rparr>))"
    by (simp add: serve_iter_def serve_request_def cmd_disc_def Let_def sizeof_nbd_request_def
        NBD_CMD_DISC_def NBD_CMD_READ_def NBD_CMD_WRITE_def split: option.splits)
  from serve_nbd_stop [OF this] show ?thesis by (simp add: EXIT_SUCCESS_def)
qed

theorem serve_nbd_disconnect_witness:
  "serve_nbd linux_le (no_operations\<lparr>op_disc := Some Suc\<rparr>) (initial_state [Bytes disc_header] [] 0)
     = (Returned 0,
        (initial_state [Bytes disc_header] [] 0)
          \<lparr>rx := [], trace := map Recv disc_header @ [Call CallDisc], user := 1\<rparr>)"
proof -
  let ?s = "initial_state [Bytes disc_header] [] (0::nat)"
  let ?aop = "no_operations\<lparr>op_disc := Some Suc\<rparr>"
  have hd: "sys_read (rx ?s) sizeof_nbd_request = (int sizeof_nbd_request, disc_header, [])"
    by (simp add: initial_state_def disc_header_def example_header_length)
  have mg: "req_magic (request_of_bytes (host_order linux_le) disc_header)
              = htonl (host_order linux_le) NBD_REQUEST_MAGIC"
    by (simp add: disc_header_def example_header_magic)
  have ty: "ntohl (host_order linux_le) (req_type (request_of_bytes (host_order linux_le) disc_header))
              = NBD_CMD_DISC"
    by (simp add: linux_le_def request_of_bytes_def load32_def ntohl_def bswap_32_def
        NBD_CMD_DISC_def disc_header_def example_header_def)
  have u: "user ?s = 0" "trace ?s = []" by (simp_all add: initial_state_def)
  from serve_nbd_disconnect [OF hd mg ty, of ?aop] u show ?thesis
    by (simp add: EXIT_SUCCESS_def)
qed

text \<open>
  C7.  A request whose magic is not the request magic, or whose command is none of those
  the build knows (READ, WRITE, DISC, and FLUSH and TRIM where the headers define their
  flags), is fatal: the assertion of line 130, or that of line 189, fails and the process
  aborts.  After the header nothing is read, nothing is sent and no callback runs: the
  request is neither ignored nor answered, and no further request is served.
\<close>

theorem serve_nbd_malformed_request:
  assumes "sys_read (rx s) sizeof_nbd_request = (int sizeof_nbd_request, hdr, ar)"
  shows "(req_magic (request_of_bytes (host_order cfg) hdr) \<noteq> htonl (host_order cfg) NBD_REQUEST_MAGIC \<longrightarrow>
            serve_nbd cfg aop s = (Aborted, s\<lparr>rx := ar, trace := trace s @ map Recv hdr\<rparr>)) \<and>
         (ntohl (host_order cfg) (req_type (request_of_bytes (host_order cfg) hdr))
            \<notin> {NBD_CMD_READ, NBD_CMD_WRITE, NBD_CMD_DISC} \<union>
              (if have_send_flush cfg then {NBD_CMD_FLUSH} else {}) \<union>
              (if have_send_trim cfg then {NBD_CMD_TRIM} else {}) \<longrightarrow>
            serve_nbd cfg aop s = (Aborted, s\<lparr>rx := ar, trace := trace s @ map Recv hdr\<rparr>))"
proof (intro conjI impI)
  assume "req_magic (request_of_bytes (host_order cfg) hdr) \<noteq> htonl (host_order cfg) NBD_REQUEST_MAGIC"
  with assms have "serve_iter cfg aop s =
      (Stop Aborted, s\<lparr>rx := ar, trace := trace s @ map Recv hdr\<rparr>)"
    by (simp add: serve_iter_def serve_request_def Let_def sizeof_nbd_request_def)
  then show "serve_nbd cfg aop s = (Aborted, s\<lparr>rx := ar, trace := trace s @ map Recv hdr\<rparr>)"
    by (rule serve_nbd_stop)
next
  assume "ntohl (host_order cfg) (req_type (request_of_bytes (host_order cfg) hdr))
            \<notin> {NBD_CMD_READ, NBD_CMD_WRITE, NBD_CMD_DISC} \<union>
              (if have_send_flush cfg then {NBD_CMD_FLUSH} else {}) \<union>
              (if have_send_trim cfg then {NBD_CMD_TRIM} else {})"
  with assms have "serve_iter cfg aop s =
      (Stop Aborted, s\<lparr>rx := ar, trace := trace s @ map Recv hdr\<rparr>)"
    by (auto simp add: serve_iter_def serve_request_def Let_def sizeof_nbd_request_def
        split: if_splits)
  then show "serve_nbd cfg aop s = (Aborted, s\<lparr>rx := ar, trace := trace s @ map Recv hdr\<rparr>)"
    by (rule serve_nbd_stop)
qed

theorem serve_nbd_malformed_request_witness:
  "serve_nbd linux_le (no_operations\<lparr>op_disc := Some Suc\<rparr>)
       (initial_state [Bytes unknown_header, Bytes disc_header] [] 0)
     = (Aborted,
        (initial_state [Bytes unknown_header, Bytes disc_header] [] 0)
          \<lparr>rx := [Bytes disc_header], trace := map Recv unknown_header\<rparr>)"
proof -
  let ?s = "initial_state [Bytes unknown_header, Bytes disc_header] [] (0::nat)"
  let ?aop = "no_operations\<lparr>op_disc := Some Suc\<rparr>"
  have hd: "sys_read (rx ?s) sizeof_nbd_request
              = (int sizeof_nbd_request, unknown_header, [Bytes disc_header])"
    by (simp add: initial_state_def sys_read_def unknown_header_def example_header_def
        sizeof_nbd_request_def MAX_RW_COUNT_def)
  have ty: "ntohl (host_order linux_le) (req_type (request_of_bytes (host_order linux_le) unknown_header))
            \<notin> {NBD_CMD_READ, NBD_CMD_WRITE, NBD_CMD_DISC} \<union>
              (if have_send_flush linux_le then {NBD_CMD_FLUSH} else {}) \<union>
              (if have_send_trim linux_le then {NBD_CMD_TRIM} else {})"
    by (simp add: linux_le_def request_of_bytes_def load32_def ntohl_def bswap_32_def
        NBD_CMD_DISC_def NBD_CMD_READ_def NBD_CMD_WRITE_def NBD_CMD_FLUSH_def NBD_CMD_TRIM_def
        unknown_header_def example_header_def)
  have u: "trace ?s = []" by (simp add: initial_state_def)
  from serve_nbd_malformed_request [OF hd, of linux_le ?aop] ty u show ?thesis
    by simp
qed

text \<open>
  C8.  The handler of the termination signals follows the state machine
  Inactive, Active(handle), Inactive.  When no device is recorded it does nothing.  When
  one is, it makes the kernel's disconnect request on the recorded handle and nothing else;
  if the request succeeds the slot goes back to "no active device", and a further signal
  does nothing; if it fails the handler reports the failure on standard error and leaves
  the slot as it was, so that a later signal makes the request again.
\<close>

theorem disconnect_nbd_state_machine:
  "(nbd_dev_to_disconnect s = - 1 \<longrightarrow> disconnect_nbd sg r s = s) \<and>
   (nbd_dev_to_disconnect s \<noteq> - 1 \<longrightarrow>
      ioctls (disconnect_nbd sg r s) = ioctls s @ [(nbd_dev_to_disconnect s, NBD_DISCONNECT)] \<and>
      trace (disconnect_nbd sg r s) = trace s \<and>
      (r \<noteq> - 1 \<longrightarrow>
         nbd_dev_to_disconnect (disconnect_nbd sg r s) = - 1 \<and>
         stderr (disconnect_nbd sg r s) = stderr s @ [MsgDisconnectRequested] \<and>
         disconnect_nbd sg' r' (disconnect_nbd sg r s) = disconnect_nbd sg r s) \<and>
      (r = - 1 \<longrightarrow>
         nbd_dev_to_disconnect (disconnect_nbd sg r s) = nbd_dev_to_disconnect s \<and>
         stderr (disconnect_nbd sg r s) = stderr s @ [WarnDisconnectFailed] \<and>
         ioctls (disconnect_nbd sg' r' (disconnect_nbd sg r s)) =
           ioctls s @ [(nbd_dev_to_disconnect s, NBD_DISCONNECT),
                       (nbd_dev_to_disconnect s, NBD_DISCONNECT)]))"
  by (simp add: disconnect_nbd_def Let_def)

theorem disconnect_nbd_state_machine_witness:
  "nbd_dev_to_disconnect ((initial_state [] [] ())\<lparr>nbd_dev_to_disconnect := 7\<rparr>) = 7 \<and>
   ioctls (disconnect_nbd 15 0 ((initial_state [] [] ())\<lparr>nbd_dev_to_disconnect := 7\<rparr>))
     = [(7, NBD_DISCONNECT)] \<and>
   nbd_dev_to_disconnect (disconnect_nbd 15 0 ((initial_state [] [] ())\<lparr>nbd_dev_to_disconnect := 7\<rparr>))
     = - 1 \<and>
   disconnect_nbd 2 0 (disconnect_nbd 15 0 ((initial_state [] [] ())\<lparr>nbd_dev_to_disconnect := 7\<rparr>))
     = disconnect_nbd 15 0 ((initial_state [] [] ())\<lparr>nbd_dev_to_disconnect := 7\<rparr>)"
proof -
  let ?s = "(initial_state [] [] ())\<lparr>nbd_dev_to_disconnect := 7\<rparr>"
  have a: "nbd_dev_to_disconnect ?s = 7" by simp
  have h: "nbd_dev_to_disconnect ?s \<noteq> - 1" by simp
  have i: "ioctls ?s = []" by (simp add: initial_state_def)
  have r: "(0::int) \<noteq> - 1" by simp
  from disconnect_nbd_state_machine [of ?s 15 0 2 0] h r a i show ?thesis
    by simp
qed

text \<open>
  C9.  The conversion \<^verbatim>\<open>ntohll\<close> undoes itself on every 64-bit value, whatever the host and
  the build; \<^verbatim>\<open>htonll\<close> is \<^verbatim>\<open>ntohll\<close>, so converting the offset of a request from wire order
  and back gives the value that was read.  The same holds for the 32-bit conversions
  \<^verbatim>\<open>ntohl\<close> and \<^verbatim>\<open>htonl\<close> that the loop applies to the length, the type and the magic.
\<close>

theorem conversions_round_trip:
  "ntohll cfg (ntohll cfg a) = a \<and> htonll cfg = ntohll cfg \<and>
   htonll cfg (ntohll cfg a) = a \<and> ntohll cfg (htonll cfg a) = a \<and>
   htonl ho (ntohl ho x) = x \<and> ntohl ho (htonl ho x) = x \<and>
   htonl ho (ntohl ho (req_len r)) = req_len r \<and>
   htonl ho (ntohl ho (req_type r)) = req_type r \<and>
   htonl ho (ntohl ho (req_magic r)) = req_magic r \<and>
   htonll cfg (ntohll cfg (req_from r)) = req_from r"
  by (simp add: htonll_def ntohll_ntohll htonl_eq_ntohl ntohl_ntohl)

text \<open>
  C10.  \<^verbatim>\<open>buse_main\<close> asserts that the slot holds "no active device" before it records the
  new handle.  Entered while a handle is still recorded, it never overwrites the slot and
  serves nothing: it ends in the failed assertion when it gets as far as line 278 (the
  socket pair, the device and its set-up succeeded and this is the parent), and before
  that only by the return of 1 for a device that cannot be opened, by an earlier failed
  assertion, or as the child, which exits.  Entered with an empty slot and getting as far,
  it records the handle of the device.
\<close>

theorem buse_main_single_session:
  assumes "buse_main cfg sys aop s = (r, s')"
  shows "(nbd_dev_to_disconnect s \<noteq> - 1 \<longrightarrow>
            nbd_dev_to_disconnect s' = nbd_dev_to_disconnect s \<and> trace s' = trace s \<and>
            (r = Aborted \<or> r = Returned 1 \<or> (\<exists>c. r = Exited c))) \<and>
         (nbd_dev_to_disconnect s \<noteq> - 1 \<and> sys SocketPair = 0 \<and> sys OpenDev \<noteq> - 1 \<and>
          fst (device_setup sys aop (sys OpenDev) s) = Completed \<and> sys Fork \<noteq> 0 \<longrightarrow>
            r = Aborted) \<and>
         (nbd_dev_to_disconnect s = - 1 \<and> sys SocketPair = 0 \<and> sys OpenDev \<noteq> - 1 \<and>
          fst (device_setup sys aop (sys OpenDev) s) = Completed \<and> sys Fork \<noteq> 0 \<longrightarrow>
            nbd_dev_to_disconnect s' = sys OpenDev)"
proof (cases "sys SocketPair = 0 \<and> sys OpenDev \<noteq> - 1")
  case False
  with assms show ?thesis
    by (auto simp add: buse_main_def Let_def split: if_splits)
next
  case True
  obtain st s1 where ds: "device_setup sys aop (sys OpenDev) s = (st, s1)"
    by (cases "device_setup sys aop (sys OpenDev) s") auto
  note fr = device_setup_dev [OF ds]
  show ?thesis
  proof (cases st)
    case AssertFailed
    with True ds assms fr show ?thesis
      by (auto simp add: buse_main_def Let_def)
  next
    case Completed
    show ?thesis
    proof (cases "sys Fork = 0")
      case child: True
      with True ds Completed assms have "buse_child cfg sys (sys OpenDev) s1 = (r, s')"
        by (simp add: buse_main_def Let_def)
      from buse_child_dev [OF this] fr child show ?thesis by auto
    next
      case parent: False
      with True ds Completed assms have "buse_parent cfg sys aop (sys OpenDev) s1 = (r, s')"
        by (simp add: buse_main_def Let_def)
      from buse_parent_recorded [OF this] fr show ?thesis by auto
    qed
  qed
qed

theorem buse_main_single_session_witness:
  "nbd_dev_to_disconnect ((initial_state [] [] ())\<lparr>nbd_dev_to_disconnect := 7\<rparr>) = 7 \<and>
   fst (buse_main linux_le ((\<lambda>c. 0)(OpenDev := 5, Fork := 1234)) no_operations
          ((initial_state [] [] ())\<lparr>nbd_dev_to_disconnect := 7\<rparr>)) = Aborted \<and>
   nbd_dev_to_disconnect
     (snd (buse_main linux_le ((\<lambda>c. 0)(OpenDev := 5, Fork := 1234)) no_operations
          ((initial_state [] [] ())\<lparr>nbd_dev_to_disconnect := 7\<rparr>))) = 7"
proof -
  let ?s = "(initial_state [] [] ())\<lparr>nbd_dev_to_disconnect := 7\<rparr>"
  let ?sys = "((\<lambda>c. 0)(OpenDev := 5, Fork := 1234)) :: callsite \<Rightarrow> int"
  let ?res = "buse_main linux_le ?sys no_operations ?s"
  have e: "?res = (fst ?res, snd ?res)" by simp
  have a: "nbd_dev_to_disconnect ?s = 7" by simp
  have h: "nbd_dev_to_disconnect ?s \<noteq> - 1 \<and> ?sys SocketPair = 0 \<and> ?sys OpenDev \<noteq> - 1 \<and>
          fst (device_setup ?sys no_operations (?sys OpenDev) ?s) = Completed \<and> ?sys Fork \<noteq> 0"
    by (simp add: device_setup_def asserted_ioctl_def ioctl_def no_operations_def)
  from buse_main_single_session [OF e] h a show ?thesis
    by simp
qed

end
